theory Spec2Isabelle
  imports Complex_Main "HOL-Library.Word"
begin

unbundle bit_operations_syntax

section \<open>\<^verbatim>\<open>tensorflow/lite/core/c/types.h\<close>\<close>

subsection \<open>The element type enumeration\<close>

text \<open>
  \<^verbatim>\<open>typedef enum { kTfLiteNoType = 0, ..., kTfLiteUInt16 = 16 } TfLiteType;\<close>
  The enumerators are the constructors, in the order of the header. A C enumeration
  constant has type \<^verbatim>\<open>int\<close>; \<open>TfLiteType_value\<close> gives each enumerator the literal
  that the header assigns to it.
\<close>

datatype TfLiteType =
    kTfLiteNoType
  | kTfLiteFloat32
  | kTfLiteInt32
  | kTfLiteUInt8
  | kTfLiteInt64
  | kTfLiteString
  | kTfLiteBool
  | kTfLiteInt16
  | kTfLiteComplex64
  | kTfLiteInt8
  | kTfLiteFloat16
  | kTfLiteFloat64
  | kTfLiteUInt64
  | kTfLiteResource
  | kTfLiteVariant
  | kTfLiteUInt32
  | kTfLiteUInt16

fun TfLiteType_value :: "TfLiteType \<Rightarrow> int" where
  "TfLiteType_value kTfLiteNoType = 0"
| "TfLiteType_value kTfLiteFloat32 = 1"
| "TfLiteType_value kTfLiteInt32 = 2"
| "TfLiteType_value kTfLiteUInt8 = 3"
| "TfLiteType_value kTfLiteInt64 = 4"
| "TfLiteType_value kTfLiteString = 5"
| "TfLiteType_value kTfLiteBool = 6"
| "TfLiteType_value kTfLiteInt16 = 7"
| "TfLiteType_value kTfLiteComplex64 = 8"
| "TfLiteType_value kTfLiteInt8 = 9"
| "TfLiteType_value kTfLiteFloat16 = 10"
| "TfLiteType_value kTfLiteFloat64 = 11"
| "TfLiteType_value kTfLiteUInt64 = 12"
| "TfLiteType_value kTfLiteResource = 13"
| "TfLiteType_value kTfLiteVariant = 14"
| "TfLiteType_value kTfLiteUInt32 = 15"
| "TfLiteType_value kTfLiteUInt16 = 16"

subsection \<open>The dimension encoding enumeration\<close>

text \<open>
  \<^verbatim>\<open>typedef enum TfLiteDimensionType { kTfLiteDimDense = 0, kTfLiteDimSparseCSR = 1,
  kTfLiteDimSparseCOO = 2, } TfLiteDimensionType;\<close>
\<close>

datatype TfLiteDimensionType =
    kTfLiteDimDense
  | kTfLiteDimSparseCSR
  | kTfLiteDimSparseCOO

fun TfLiteDimensionType_value :: "TfLiteDimensionType \<Rightarrow> int" where
  "TfLiteDimensionType_value kTfLiteDimDense = 0"
| "TfLiteDimensionType_value kTfLiteDimSparseCSR = 1"
| "TfLiteDimensionType_value kTfLiteDimSparseCOO = 2"

subsection \<open>The legacy quantization parameters\<close>

text \<open>
  \<^verbatim>\<open>typedef struct { float scale; int32_t zero_point; } TfLiteQuantizationParams;\<close>

  A \<^verbatim>\<open>float\<close> object is modelled by what the struct stores: its 32-bit pattern, read
  as IEEE 754 binary32 (the \<^verbatim>\<open>float\<close> of every target of this code): bit 31 is the
  sign, bits 30..23 the biased exponent, bits 22..0 the fraction. \<open>float32_value\<close>
  decodes a pattern into the real number it denotes; infinities and NaNs (exponent
  255) denote no number. An \<^verbatim>\<open>int32_t\<close> is a 32-bit word, read as two's complement
  by \<open>sint\<close>.
\<close>

type_synonym float32 = "32 word"

type_synonym int32_t = "32 word"

definition float32_sign :: "float32 \<Rightarrow> bool" where
  "float32_sign w = bit w 31"

definition float32_exponent :: "float32 \<Rightarrow> nat" where
  "float32_exponent w = unat (drop_bit 23 w AND 0xFF)"

definition float32_fraction :: "float32 \<Rightarrow> nat" where
  "float32_fraction w = unat (w AND 0x7FFFFF)"

definition float32_value :: "float32 \<Rightarrow> real option" where
  "float32_value w =
     (let s = (if float32_sign w then - 1 else 1 :: real);
          e = float32_exponent w;
          f = float32_fraction w
      in if e = 255 then None
         else if e = 0 then Some (s * real f / 2 ^ 149)
         else if 150 \<le> e then Some (s * real (2 ^ 23 + f) * 2 ^ (e - 150))
         else Some (s * real (2 ^ 23 + f) / 2 ^ (150 - e)))"

record TfLiteQuantizationParams =
  scale :: float32
  zero_point :: int32_t

text \<open>
  The header declares no function on the struct; what a program can do with a value of
  it is what C gives every struct. Initialising a new object from an existing one
  (\<^verbatim>\<open>TfLiteQuantizationParams b = a;\<close>, in C++ the implicit copy constructor) copies
  each member; simple assignment (\<^verbatim>\<open>dst = src;\<close>) replaces each member of the
  destination by the source's. A member write \<^verbatim>\<open>q.scale = s;\<close> is the record update
  \<open>q\<lparr>scale := s\<rparr>\<close>.
\<close>

definition TfLiteQuantizationParams_copy ::
    "TfLiteQuantizationParams \<Rightarrow> TfLiteQuantizationParams" where
  "TfLiteQuantizationParams_copy src = \<lparr>scale = scale src, zero_point = zero_point src\<rparr>"

definition TfLiteQuantizationParams_assign ::
    "TfLiteQuantizationParams \<Rightarrow> TfLiteQuantizationParams \<Rightarrow> TfLiteQuantizationParams" where
  "TfLiteQuantizationParams_assign dst src =
     dst\<lparr>scale := scale src, zero_point := zero_point src\<rparr>"

section \<open>\<^verbatim>\<open>tensorflow/compiler/mlir/lite/core/c/tflite_types.h\<close>\<close>

text \<open>
  \<^verbatim>\<open>typedef struct MlirContext { void *ptr; } MlirContext;\<close>
  \<^verbatim>\<open>typedef struct MlirType    { void *ptr; } MlirType;\<close>

  A \<^verbatim>\<open>void *\<close> is modelled as the address it holds, a natural number (the header
  fixes no pointer width); the null pointer is address 0.
\<close>

type_synonym void_ptr = nat

definition NULL :: void_ptr where
  "NULL = 0"

record MlirContext =
  ptr :: void_ptr

record MlirType =
  ptr :: void_ptr

section \<open>Facts shared by the enumeration theorems\<close>

lemma TfLiteType_UNIV:
  "(UNIV :: TfLiteType set) =
     {kTfLiteNoType, kTfLiteFloat32, kTfLiteInt32, kTfLiteUInt8, kTfLiteInt64,
      kTfLiteString, kTfLiteBool, kTfLiteInt16, kTfLiteComplex64, kTfLiteInt8,
      kTfLiteFloat16, kTfLiteFloat64, kTfLiteUInt64, kTfLiteResource, kTfLiteVariant,
      kTfLiteUInt32, kTfLiteUInt16}"
proof -
  have "t \<in> {kTfLiteNoType, kTfLiteFloat32, kTfLiteInt32, kTfLiteUInt8, kTfLiteInt64,
      kTfLiteString, kTfLiteBool, kTfLiteInt16, kTfLiteComplex64, kTfLiteInt8,
      kTfLiteFloat16, kTfLiteFloat64, kTfLiteUInt64, kTfLiteResource, kTfLiteVariant,
      kTfLiteUInt32, kTfLiteUInt16}" for t :: TfLiteType
    by (cases t) simp_all
  then show ?thesis by blast
qed

lemma TfLiteDimensionType_UNIV:
  "(UNIV :: TfLiteDimensionType set) =
     {kTfLiteDimDense, kTfLiteDimSparseCSR, kTfLiteDimSparseCOO}"
proof -
  have "d \<in> {kTfLiteDimDense, kTfLiteDimSparseCSR, kTfLiteDimSparseCOO}"
    for d :: TfLiteDimensionType
    by (cases d) simp_all
  then show ?thesis by blast
qed

lemma int_0_16_cases:
  fixes x :: int
  assumes "0 \<le> x" and "x \<le> 16"
  shows "x = 0 \<or> x = 1 \<or> x = 2 \<or> x = 3 \<or> x = 4 \<or> x = 5 \<or> x = 6 \<or> x = 7
    \<or> x = 8 \<or> x = 9 \<or> x = 10 \<or> x = 11 \<or> x = 12 \<or> x = 13 \<or> x = 14 \<or> x = 15
    \<or> x = 16"
  using assms by presburger

lemma int_range_0_16:
  "{0..16::int} = {0, 1, 2, 3, 4, 5, 6, 7, 8, 9, 10, 11, 12, 13, 14, 15, 16}"
proof
  show "{0..16::int} \<subseteq> {0, 1, 2, 3, 4, 5, 6, 7, 8, 9, 10, 11, 12, 13, 14, 15, 16}"
  proof
    fix x :: int
    assume "x \<in> {0..16}"
    then have "0 \<le> x" and "x \<le> 16" by simp_all
    from int_0_16_cases [OF this]
    show "x \<in> {0, 1, 2, 3, 4, 5, 6, 7, 8, 9, 10, 11, 12, 13, 14, 15, 16}"
      by simp
  qed
  show "{0, 1, 2, 3, 4, 5, 6, 7, 8, 9, 10, 11, 12, 13, 14, 15, 16} \<subseteq> {0..16::int}"
    by simp
qed

lemma int_range_0_2: "{0..2::int} = {0, 1, 2}"
  by auto

lemma TfLiteType_value_range: "range TfLiteType_value = {0..16}"
  unfolding TfLiteType_UNIV int_range_0_16 by simp

lemma TfLiteDimensionType_value_range: "range TfLiteDimensionType_value = {0..2}"
  unfolding TfLiteDimensionType_UNIV int_range_0_2 by simp

lemma TfLiteType_value_inj: "inj TfLiteType_value"
proof (rule injI)
  fix a b :: TfLiteType
  assume "TfLiteType_value a = TfLiteType_value b"
  then show "a = b"
    by (cases a; cases b; simp)
qed

lemma TfLiteDimensionType_value_inj: "inj TfLiteDimensionType_value"
proof (rule injI)
  fix a b :: TfLiteDimensionType
  assume "TfLiteDimensionType_value a = TfLiteDimensionType_value b"
  then show "a = b"
    by (cases a; cases b; simp)
qed

lemma inj_range_ex1:
  assumes "inj f" and "y \<in> range f"
  shows "\<exists>!x. f x = y"
proof -
  from assms(2) obtain x where x: "f x = y" by auto
  show ?thesis
  proof (rule ex1I [of _ x])
    show "f x = y" by (rule x)
  next
    fix x'
    assume "f x' = y"
    with x have "f x' = f x" by simp
    with assms(1) show "x' = x" by (simp add: inj_eq)
  qed
qed

lemma TfLiteType_value_zero_iff: "(TfLiteType_value t = 0) = (t = kTfLiteNoType)"
  by (cases t) simp_all

lemma float32_value_half: "float32_value 0x3F000000 = Some (1 / 2)"
  by (simp add: float32_value_def float32_sign_def float32_exponent_def
      float32_fraction_def)

lemma float32_value_minus_one: "float32_value 0xBF800000 = Some (- 1)"
  by (simp add: float32_value_def float32_sign_def float32_exponent_def
      float32_fraction_def)

section \<open>The enumerators and their values\<close>

text \<open>
  C1. Every enumerator of \<open>TfLiteType\<close> has the integer the header assigns to it
  (\<open>kTfLiteNoType = 0\<close>, \<open>kTfLiteFloat32 = 1\<close>, ..., \<open>kTfLiteUInt16 = 16\<close>), and the
  enumeration is exactly these 17 tags: every value of the type is one of them, there
  are 17 of them, and the values they take are exactly the integers 0 to 16.
\<close>

theorem TfLiteType_values_as_assigned:
  "TfLiteType_value kTfLiteNoType = 0
   \<and> TfLiteType_value kTfLiteFloat32 = 1
   \<and> TfLiteType_value kTfLiteInt32 = 2
   \<and> TfLiteType_value kTfLiteUInt8 = 3
   \<and> TfLiteType_value kTfLiteInt64 = 4
   \<and> TfLiteType_value kTfLiteString = 5
   \<and> TfLiteType_value kTfLiteBool = 6
   \<and> TfLiteType_value kTfLiteInt16 = 7
   \<and> TfLiteType_value kTfLiteComplex64 = 8
   \<and> TfLiteType_value kTfLiteInt8 = 9
   \<and> TfLiteType_value kTfLiteFloat16 = 10
   \<and> TfLiteType_value kTfLiteFloat64 = 11
   \<and> TfLiteType_value kTfLiteUInt64 = 12
   \<and> TfLiteType_value kTfLiteResource = 13
   \<and> TfLiteType_value kTfLiteVariant = 14
   \<and> TfLiteType_value kTfLiteUInt32 = 15
   \<and> TfLiteType_value kTfLiteUInt16 = 16
   \<and> (UNIV :: TfLiteType set) =
       {kTfLiteNoType, kTfLiteFloat32, kTfLiteInt32, kTfLiteUInt8, kTfLiteInt64,
        kTfLiteString, kTfLiteBool, kTfLiteInt16, kTfLiteComplex64, kTfLiteInt8,
        kTfLiteFloat16, kTfLiteFloat64, kTfLiteUInt64, kTfLiteResource, kTfLiteVariant,
        kTfLiteUInt32, kTfLiteUInt16}
   \<and> card (UNIV :: TfLiteType set) = 17
   \<and> range TfLiteType_value = {0..16}"
proof -
  have c: "card (UNIV :: TfLiteType set) = 17"
    unfolding TfLiteType_UNIV by simp
  show ?thesis
    using c TfLiteType_value_range TfLiteType_UNIV by simp
qed

text \<open>
  C2. Every enumerator of \<open>TfLiteDimensionType\<close> has the integer the header assigns
  to it (\<open>kTfLiteDimDense = 0\<close>, \<open>kTfLiteDimSparseCSR = 1\<close>, \<open>kTfLiteDimSparseCOO = 2\<close>),
  and the enumeration has exactly these 3 members.
\<close>

theorem TfLiteDimensionType_values_as_assigned:
  "TfLiteDimensionType_value kTfLiteDimDense = 0
   \<and> TfLiteDimensionType_value kTfLiteDimSparseCSR = 1
   \<and> TfLiteDimensionType_value kTfLiteDimSparseCOO = 2
   \<and> (UNIV :: TfLiteDimensionType set) =
       {kTfLiteDimDense, kTfLiteDimSparseCSR, kTfLiteDimSparseCOO}
   \<and> card (UNIV :: TfLiteDimensionType set) = 3
   \<and> range TfLiteDimensionType_value = {0..2}"
proof -
  have c: "card (UNIV :: TfLiteDimensionType set) = 3"
    unfolding TfLiteDimensionType_UNIV by simp
  show ?thesis
    using c TfLiteDimensionType_value_range TfLiteDimensionType_UNIV by simp
qed

text \<open>
  C8. The tag-to-integer mappings of both enumerations are injective: no two distinct
  members of \<open>TfLiteType\<close> share a value, no two distinct members of
  \<open>TfLiteDimensionType\<close> share a value, and an integer in range (0..16, respectively
  0..2) is the value of exactly one tag.
\<close>

theorem enum_values_injective:
  "inj TfLiteType_value
   \<and> inj TfLiteDimensionType_value
   \<and> (0 \<le> n \<and> n \<le> 16 \<longrightarrow> (\<exists>!t. TfLiteType_value t = n))
   \<and> (0 \<le> m \<and> m \<le> 2 \<longrightarrow> (\<exists>!d. TfLiteDimensionType_value d = m))"
proof -
  have t: "\<exists>!t. TfLiteType_value t = n" if "0 \<le> n \<and> n \<le> 16"
  proof -
    from that have "n \<in> range TfLiteType_value"
      unfolding TfLiteType_value_range by simp
    with TfLiteType_value_inj show ?thesis by (rule inj_range_ex1)
  qed
  have d: "\<exists>!d. TfLiteDimensionType_value d = m" if "0 \<le> m \<and> m \<le> 2"
  proof -
    from that have "m \<in> range TfLiteDimensionType_value"
      unfolding TfLiteDimensionType_value_range by simp
    with TfLiteDimensionType_value_inj show ?thesis by (rule inj_range_ex1)
  qed
  from t d show ?thesis
    using TfLiteType_value_inj TfLiteDimensionType_value_inj by blast
qed

text \<open>
  An instance of the theorem above: the integer 9 identifies exactly one
  \<open>TfLiteType\<close> tag, \<open>kTfLiteInt8\<close>, and the integer 1 exactly one
  \<open>TfLiteDimensionType\<close> tag, \<open>kTfLiteDimSparseCSR\<close>.
\<close>

theorem enum_values_injective_witness:
  "(0::int) \<le> 9 \<and> (9::int) \<le> 16
   \<and> (\<exists>!t. TfLiteType_value t = 9)
   \<and> (THE t. TfLiteType_value t = 9) = kTfLiteInt8
   \<and> (0::int) \<le> 1 \<and> (1::int) \<le> 2
   \<and> (\<exists>!d. TfLiteDimensionType_value d = 1)
   \<and> (THE d. TfLiteDimensionType_value d = 1) = kTfLiteDimSparseCSR"
proof -
  from enum_values_injective [of 9 1]
  have t: "\<exists>!t. TfLiteType_value t = 9"
    and d: "\<exists>!d. TfLiteDimensionType_value d = 1"
    by simp_all
  have "TfLiteType_value kTfLiteInt8 = 9" by simp
  with t have t': "(THE t. TfLiteType_value t = 9) = kTfLiteInt8"
    by (rule the1_equality)
  have "TfLiteDimensionType_value kTfLiteDimSparseCSR = 1" by simp
  with d have d': "(THE d. TfLiteDimensionType_value d = 1) = kTfLiteDimSparseCSR"
    by (rule the1_equality)
  from t d t' d' show ?thesis by simp
qed

text \<open>
  C9. The value 0 of \<open>TfLiteType\<close> is \<open>kTfLiteNoType\<close> and no other tag: a
  \<open>TfLiteType\<close> has value 0 exactly when it is \<open>kTfLiteNoType\<close>. That tag is not one of
  the 16 element kinds (float32, int32, uint8, int64, string, bool, int16, complex64,
  int8, float16, float64, uint64, resource, variant, uint32, uint16), and a tag is one
  of those 16 kinds exactly when its value is not 0; in particular \<open>kTfLiteFloat32\<close>
  is not the zero value.
\<close>

theorem zero_value_is_kTfLiteNoType:
  "TfLiteType_value kTfLiteNoType = 0
   \<and> (TfLiteType_value t = 0) = (t = kTfLiteNoType)
   \<and> kTfLiteNoType \<notin>
       {kTfLiteFloat32, kTfLiteInt32, kTfLiteUInt8, kTfLiteInt64, kTfLiteString,
        kTfLiteBool, kTfLiteInt16, kTfLiteComplex64, kTfLiteInt8, kTfLiteFloat16,
        kTfLiteFloat64, kTfLiteUInt64, kTfLiteResource, kTfLiteVariant, kTfLiteUInt32,
        kTfLiteUInt16}
   \<and> (t \<in>
       {kTfLiteFloat32, kTfLiteInt32, kTfLiteUInt8, kTfLiteInt64, kTfLiteString,
        kTfLiteBool, kTfLiteInt16, kTfLiteComplex64, kTfLiteInt8, kTfLiteFloat16,
        kTfLiteFloat64, kTfLiteUInt64, kTfLiteResource, kTfLiteVariant, kTfLiteUInt32,
        kTfLiteUInt16}) = (TfLiteType_value t \<noteq> 0)
   \<and> TfLiteType_value kTfLiteFloat32 \<noteq> 0"
proof -
  have kinds: "(t \<in>
       {kTfLiteFloat32, kTfLiteInt32, kTfLiteUInt8, kTfLiteInt64, kTfLiteString,
        kTfLiteBool, kTfLiteInt16, kTfLiteComplex64, kTfLiteInt8, kTfLiteFloat16,
        kTfLiteFloat64, kTfLiteUInt64, kTfLiteResource, kTfLiteVariant, kTfLiteUInt32,
        kTfLiteUInt16}) = (TfLiteType_value t \<noteq> 0)"
    by (cases t) simp_all
  show ?thesis
    using kinds TfLiteType_value_zero_iff [of t] by simp
qed

section \<open>The quantization parameter struct\<close>

text \<open>
  C4. Copy construction and assignment of a \<open>TfLiteQuantizationParams\<close> value keep
  both fields: for every value \<open>q\<close> (and every previous content \<open>dst\<close> of the object
  assigned to), the copy of \<open>q\<close> and the object assigned from \<open>q\<close> have the \<open>scale\<close> and
  the \<open>zero_point\<close> of \<open>q\<close>, also when the copy is then assigned. In particular for the
  value built with scale 0.5 (binary32 pattern \<open>0x3F000000\<close>) and zero point 128,
  the round trip still reads scale 0.5 and zero point 128.
\<close>

theorem TfLiteQuantizationParams_copy_assign_roundtrip:
  "scale (TfLiteQuantizationParams_copy q) = scale q
   \<and> zero_point (TfLiteQuantizationParams_copy q) = zero_point q
   \<and> scale (TfLiteQuantizationParams_assign dst q) = scale q
   \<and> zero_point (TfLiteQuantizationParams_assign dst q) = zero_point q
   \<and> TfLiteQuantizationParams_assign dst (TfLiteQuantizationParams_copy q) = q
   \<and> float32_value (scale (TfLiteQuantizationParams_assign dst
         (TfLiteQuantizationParams_copy \<lparr>scale = 0x3F000000, zero_point = 128\<rparr>)))
       = Some (1 / 2)
   \<and> sint (zero_point (TfLiteQuantizationParams_assign dst
         (TfLiteQuantizationParams_copy \<lparr>scale = 0x3F000000, zero_point = 128\<rparr>)))
       = 128"
  by (simp add: TfLiteQuantizationParams_copy_def TfLiteQuantizationParams_assign_def
      float32_value_half)

text \<open>
  C6. The type does not enforce a non-negative scale: there is a
  \<open>TfLiteQuantizationParams\<close> value whose \<open>scale\<close> denotes a negative number, for
  instance the one with scale pattern \<open>0xBF800000\<close>, which is -1.0.
\<close>

theorem TfLiteQuantizationParams_negative_scale_exists:
  "float32_value (scale \<lparr>scale = 0xBF800000, zero_point = 0\<rparr>) = Some (- 1)
   \<and> (\<exists>q :: TfLiteQuantizationParams. \<exists>r. float32_value (scale q) = Some r \<and> r < 0)"
proof -
  have v: "float32_value (scale \<lparr>scale = 0xBF800000, zero_point = 0\<rparr>) = Some (- 1)"
    by (simp add: float32_value_minus_one)
  then have "float32_value (scale \<lparr>scale = 0xBF800000, zero_point = 0\<rparr>) = Some (- 1)
      \<and> (- 1 :: real) < 0"
    by simp
  then have "\<exists>q :: TfLiteQuantizationParams. \<exists>r. float32_value (scale q) = Some r \<and> r < 0"
    by blast
  with v show ?thesis by simp
qed

text \<open>
  C10. Writing one field of a \<open>TfLiteQuantizationParams\<close> value leaves the other
  unchanged: after \<^verbatim>\<open>q.scale = s\<close> the \<open>zero_point\<close> is that of \<open>q\<close> (and the scale is
  \<open>s\<close>), and after \<^verbatim>\<open>q.zero_point = z\<close> the \<open>scale\<close> is that of \<open>q\<close> (and the zero point
  is \<open>z\<close>).
\<close>

theorem TfLiteQuantizationParams_field_frame:
  "zero_point (q\<lparr>scale := s\<rparr>) = zero_point q
   \<and> scale (q\<lparr>zero_point := z\<rparr>) = scale q
   \<and> scale (q\<lparr>scale := s\<rparr>) = s
   \<and> zero_point (q\<lparr>zero_point := z\<rparr>) = z"
  by simp

section \<open>The opaque MLIR handles\<close>

text \<open>
  C5. \<open>MlirContext\<close> and \<open>MlirType\<close> each hold exactly one pointer field \<open>ptr\<close>: a
  value of either is the record of its \<open>ptr\<close>, and \<open>ptr\<close> is a bijection between the
  struct and the pointers. Each can hold the null pointer: the handle built from
  \<open>NULL\<close> is a value of the type whose \<open>ptr\<close> reads \<open>NULL\<close>, that is 0.
\<close>

theorem opaque_handles_one_pointer_null_ok:
  "(c :: MlirContext) = \<lparr>MlirContext.ptr = MlirContext.ptr c\<rparr>
   \<and> (t :: MlirType) = \<lparr>MlirType.ptr = MlirType.ptr t\<rparr>
   \<and> bij (MlirContext.ptr :: MlirContext \<Rightarrow> void_ptr)
   \<and> bij (MlirType.ptr :: MlirType \<Rightarrow> void_ptr)
   \<and> MlirContext.ptr \<lparr>MlirContext.ptr = NULL\<rparr> = NULL
   \<and> MlirType.ptr \<lparr>MlirType.ptr = NULL\<rparr> = NULL
   \<and> NULL = 0
   \<and> (\<exists>c0 :: MlirContext. MlirContext.ptr c0 = NULL)
   \<and> (\<exists>t0 :: MlirType. MlirType.ptr t0 = NULL)"
proof -
  have bc: "bij (MlirContext.ptr :: MlirContext \<Rightarrow> void_ptr)"
  proof (rule bijI)
    show "inj (MlirContext.ptr :: MlirContext \<Rightarrow> void_ptr)"
      by (rule injI) simp
    show "surj (MlirContext.ptr :: MlirContext \<Rightarrow> void_ptr)"
    proof (rule surjI)
      fix p :: void_ptr
      show "MlirContext.ptr \<lparr>MlirContext.ptr = p\<rparr> = p" by simp
    qed
  qed
  have bt: "bij (MlirType.ptr :: MlirType \<Rightarrow> void_ptr)"
  proof (rule bijI)
    show "inj (MlirType.ptr :: MlirType \<Rightarrow> void_ptr)"
      by (rule injI) simp
    show "surj (MlirType.ptr :: MlirType \<Rightarrow> void_ptr)"
    proof (rule surjI)
      fix p :: void_ptr
      show "MlirType.ptr \<lparr>MlirType.ptr = p\<rparr> = p" by simp
    qed
  qed
  have ec: "\<exists>c0 :: MlirContext. MlirContext.ptr c0 = NULL"
    by (rule exI [of _ "\<lparr>MlirContext.ptr = NULL\<rparr>"]) simp
  have et: "\<exists>t0 :: MlirType. MlirType.ptr t0 = NULL"
    by (rule exI [of _ "\<lparr>MlirType.ptr = NULL\<rparr>"]) simp
  show ?thesis
    using bc bt ec et by (simp add: NULL_def)
qed

end
